theory Spec2Isabelle
  imports Main "HOL-Library.Sublist" "HOL-Library.Multiset"
begin

section \<open>Data model\<close>

text \<open>
  The notebook \<^verbatim>\<open>biosolids_filtering.ipynb\<close> works on pandas data frames. A data frame
  is modelled as the list of its rows, in row order; every row carries its index label
  (\<open>idx\<close>), which boolean-mask selection keeps and which \<^verbatim>\<open>.loc\<close> looks up.

  The columns used by the notebook are the fields of the record \<open>facility\<close>:
  \<^item> \<^verbatim>\<open>'Reporting Obligation(s)'\<close> is a text column read from a CSV file; an entry
    that is missing or is not a text is pandas' NaN to the string methods, modelled as
    \<open>None\<close>;
  \<^item> \<^verbatim>\<open>'sic_permit'\<close> holds a Python list per row (the notebook's outputs show
    \<^verbatim>\<open>[4941, 4941]\<close>); its entries are integer codes or strings, the string
    \<^verbatim>\<open>'NO_SIC_MATCH'\<close> being the marker of a lookup without result;
  \<^item> \<^verbatim>\<open>'check_sewer_permits'\<close> holds one of the two strings \<^verbatim>\<open>'sewer_system'\<close> and
    \<^verbatim>\<open>'other_system'\<close>.
\<close>

datatype error = TypeError | KeyError | AttributeError

datatype verdict = sewer_system | other_system

datatype sic_entry = SicInt int | SicStr string

record facility =
  idx :: nat
  Facility_Name :: string
  NPDES_ID :: string
  City :: string
  State :: string
  Reporting_Obligations :: "string option"
  sic_permit :: "sic_entry list"
  check_sewer_permits :: verdict

type_synonym frame = "facility list"

datatype config = Original | Revised

section \<open>pandas operations used by the notebook\<close>

text \<open>
  \<^verbatim>\<open>Series.str.contains(pat)\<close> searches every entry for the pattern. pandas reads the
  pattern as a regular expression; for a pattern without metacharacters, such as
  \<^verbatim>\<open>'POTW'\<close>, this is the search for a literal substring, which \<open>str_contains\<close> performs
  position by position. A missing entry gives NaN (\<open>None\<close>).
\<close>

fun starts_with :: "string \<Rightarrow> string \<Rightarrow> bool" where
  "starts_with [] s = True"
| "starts_with (p # ps) [] = False"
| "starts_with (p # ps) (c # cs) = (p = c \<and> starts_with ps cs)"

fun str_contains :: "string \<Rightarrow> string \<Rightarrow> bool" where
  "str_contains pat [] = (pat = [])"
| "str_contains pat (c # cs) = (starts_with pat (c # cs) \<or> str_contains pat cs)"

definition Series_str_contains :: "string \<Rightarrow> string option \<Rightarrow> bool option" where
  "Series_str_contains pat v = map_option (str_contains pat) v"

text \<open>
  The accessor \<^verbatim>\<open>.str\<close> itself raises \<^verbatim>\<open>AttributeError\<close> on a column that is not of
  dtype object. \<^verbatim>\<open>read_csv\<close> gives the text column dtype object when the roster has no
  row or when at least one entry of the column is a text, and a numeric dtype when every
  entry is missing; selecting rows keeps the dtype. So the accessor is checked on the
  column of the whole roster, and \<open>Series_str_contains\<close> gives the entries of the result
  on a column that passes the check.
\<close>

definition str_accessor :: "string option list \<Rightarrow> error + string option list" where
  "str_accessor column =
     (if column = [] \<or> list_ex (\<lambda>v. v \<noteq> None) column then Inr column
      else Inl AttributeError)"

text \<open>
  \<^verbatim>\<open>~s\<close> on a Series: with a NaN among the entries the Series has dtype object and the
  operator raises \<^verbatim>\<open>TypeError: bad operand type for unary ~: 'float'\<close>.
\<close>

definition invert :: "bool option list \<Rightarrow> error + bool list" where
  "invert s = (case those s of None \<Rightarrow> Inl TypeError | Some bs \<Rightarrow> Inr (map Not bs))"

text \<open>\<^verbatim>\<open>df[mask]\<close>: the rows at which the mask is true, in row order.\<close>

definition boolean_mask :: "'a list \<Rightarrow> bool list \<Rightarrow> 'a list" where
  "boolean_mask df msk = map fst (filter snd (zip df msk))"

section \<open>The filtering pipeline\<close>

text \<open>Rule 1: \<^verbatim>\<open>all_biosolids[all_biosolids['check_sewer_permits'] == 'other_system']\<close>.\<close>

definition biosolids_not_sewer :: "frame \<Rightarrow> frame" where
  "biosolids_not_sewer all_biosolids =
     boolean_mask all_biosolids (map (\<lambda>r. check_sewer_permits r = other_system) all_biosolids)"

text \<open>
  Rule 2, first pass:
  \<^verbatim>\<open>potw_mask = ~biosolids_not_sewer['Reporting Obligation(s)'].str.contains('POTW')\<close>.
\<close>

definition potw_check :: "facility \<Rightarrow> bool option" where
  "potw_check r = Series_str_contains ''POTW'' (Reporting_Obligations r)"

definition potw_mask :: "frame \<Rightarrow> error + bool list" where
  "potw_mask df = invert (map potw_check df)"

definition biosolids_not_sewer_not_potw :: "frame \<Rightarrow> error + frame" where
  "biosolids_not_sewer_not_potw df =
     (case potw_mask df of Inl e \<Rightarrow> Inl e | Inr msk \<Rightarrow> Inr (boolean_mask df msk))"

text \<open>
  Rule 2, second pass: the columns \<^verbatim>\<open>potw_check\<close> and \<^verbatim>\<open>dw_sic_check\<close> are functions of
  the row, and
  \<^verbatim>\<open>potw_not_dw_mask = ~((df['potw_check'] == 1) & (df['dw_sic_check'] == 0))\<close>.
  The comparison \<^verbatim>\<open>== 1\<close> is true at \<^verbatim>\<open>True\<close> and false at \<^verbatim>\<open>False\<close> and at NaN, so the
  mask is a Series of booleans and \<^verbatim>\<open>~\<close> negates it entry by entry.
\<close>

definition dw_code :: int where
  "dw_code = 4941"

definition dw_sic_check :: "facility \<Rightarrow> bool" where
  "dw_sic_check r = (SicInt dw_code \<in> set (sic_permit r))"

definition potw_not_dw_mask :: "frame \<Rightarrow> bool list" where
  "potw_not_dw_mask df =
     map (\<lambda>r. \<not> ((potw_check r = Some True) \<and> (dw_sic_check r = False))) df"

definition biosolids_not_potw_includes_dw :: "frame \<Rightarrow> frame" where
  "biosolids_not_potw_includes_dw df = boolean_mask df (potw_not_dw_mask df)"

text \<open>Rule 3: \<^verbatim>\<open>df[df['sic_permit'].apply(lambda x: 'NO_SIC_MATCH' not in x)]\<close>.\<close>

definition has_match :: "frame \<Rightarrow> frame" where
  "has_match df =
     boolean_mask df (map (\<lambda>r. SicStr ''NO_SIC_MATCH'' \<notin> set (sic_permit r)) df)"

text \<open>The removal taxonomy \<^verbatim>\<open>sic_remove\<close>, as listed in the notebook (7999 twice).\<close>

definition sic_remove :: "int list" where
  "sic_remove = [6515, 4941, 8211, 8221, 7033, 7032, 9223, 1389, 3533, 8361, 8661, 7997,
     7999, 8051, 3498, 7011, 3171, 2491, 2493, 9711, 3743, 5541, 4911, 5075, 7041, 2011,
     8063, 5812, 7999, 2899, 3331, 6531, 4011, 6514, 2621, 4581, 1522]"

fun in_sic_remove :: "sic_entry \<Rightarrow> bool" where
  "in_sic_remove (SicInt n) = (n \<in> set sic_remove)"
| "in_sic_remove (SicStr s) = False"

text \<open>
  Rules 4 and 5 split the rows that are left by
  \<^verbatim>\<open>any(item in sic_remove for item in x)\<close>.
\<close>

definition has_match_sic_removal :: "frame \<Rightarrow> frame" where
  "has_match_sic_removal df =
     boolean_mask df (map (\<lambda>r. list_ex in_sic_remove (sic_permit r)) df)"

definition has_match_sic_check :: "frame \<Rightarrow> frame" where
  "has_match_sic_check df =
     boolean_mask df (map (\<lambda>r. \<not> list_ex in_sic_remove (sic_permit r)) df)"

text \<open>
  The rows that pass rule 2 in either pass, and the final assignment
  \<^verbatim>\<open>biosolids_to_remove = biosolids_not_sewer_not_potw_has_match\<close>, which both passes make.
  Both passes reach the text column through \<^verbatim>\<open>.str\<close>; the frame they read has the dtypes
  of the roster, so the accessor is checked on the roster's column.
\<close>

fun not_potw :: "config \<Rightarrow> frame \<Rightarrow> error + frame" where
  "not_potw Original df = biosolids_not_sewer_not_potw df"
| "not_potw Revised df = Inr (biosolids_not_potw_includes_dw df)"

definition biosolids_not_sewer_not_potw_has_match :: "config \<Rightarrow> frame \<Rightarrow> error + frame" where
  "biosolids_not_sewer_not_potw_has_match cfg all_biosolids =
     (case str_accessor (map Reporting_Obligations all_biosolids) of
        Inl e \<Rightarrow> Inl e
      | Inr column \<Rightarrow>
          (case not_potw cfg (biosolids_not_sewer all_biosolids) of
             Inl e \<Rightarrow> Inl e
           | Inr df \<Rightarrow> Inr (has_match df)))"

definition biosolids_to_remove :: "config \<Rightarrow> frame \<Rightarrow> error + frame" where
  "biosolids_to_remove cfg all_biosolids = biosolids_not_sewer_not_potw_has_match cfg all_biosolids"

section \<open>The retention rules in the specification's words\<close>

text \<open>
  The reporting-obligation text contains the literal substring POTW; a missing text
  contains nothing. The Code Set contains the water-supply code 4941.
\<close>

definition obligation_contains_POTW :: "facility \<Rightarrow> bool" where
  "obligation_contains_POTW r =
     (case Reporting_Obligations r of None \<Rightarrow> False | Some s \<Rightarrow> sublist ''POTW'' s)"

definition code_set_contains_4941 :: "facility \<Rightarrow> bool" where
  "code_set_contains_4941 r = (SicInt 4941 \<in> set (sic_permit r))"

text \<open>Retention rule 2 of the specification, in its original and its revised form.\<close>

fun rule2_retains :: "config \<Rightarrow> facility \<Rightarrow> bool" where
  "rule2_retains Original r = obligation_contains_POTW r"
| "rule2_retains Revised r = (obligation_contains_POTW r \<and> \<not> code_set_contains_4941 r)"

text \<open>Every text of the frame is present (no NaN in the column).\<close>

definition texts_present :: "frame \<Rightarrow> bool" where
  "texts_present df = list_all (\<lambda>r. Reporting_Obligations r \<noteq> None) df"

text \<open>
  The text column of the roster has dtype object: the roster has no row, or at least one
  row has a text.
\<close>

definition text_column_object :: "frame \<Rightarrow> bool" where
  "text_column_object all_biosolids =
     (all_biosolids = [] \<or> list_ex (\<lambda>r. Reporting_Obligations r \<noteq> None) all_biosolids)"

text \<open>
  The rosters on which a pass returns a removal list: the text column has dtype object
  and, in the first pass, every row with verdict \<open>other_system\<close> has its text.
\<close>

fun returns_list :: "config \<Rightarrow> frame \<Rightarrow> bool" where
  "returns_list Original all_biosolids =
     (text_column_object all_biosolids \<and> texts_present (biosolids_not_sewer all_biosolids))"
| "returns_list Revised all_biosolids = text_column_object all_biosolids"

section \<open>The manual review\<close>

text \<open>
  The notebook's note on the rows of \<^verbatim>\<open>biosolids_not_sewer_not_potw_has_match_sic_check\<close>
  lists five facilities, each with the decision to remove it, and concludes that all rows
  of \<^verbatim>\<open>biosolids_not_sewer_not_potw_has_match\<close> can be removed. The list is recorded here
  with the permit numbers of the notebook's output; no code of the notebook reads it.
\<close>

datatype decision = Keep | Remove

definition manual_review :: "(string \<times> decision) list" where
  "manual_review = [(''TX0129321'', Remove), (''TX0083933'', Remove), (''TX0101656'', Remove),
     (''TX0138754'', Remove), (''SCL000175'', Remove)]"

section \<open>Comparison of two removal lists\<close>

text \<open>
  \<^verbatim>\<open>common_columns = ['Facility Name', 'NPDES ID', 'City', 'State', 'Reporting Obligation(s)']\<close>;
  \<^verbatim>\<open>df[common_columns]\<close> keeps the index label of every row.
\<close>

type_synonym key = "string \<times> string \<times> string \<times> string \<times> string option"

definition common_columns :: "facility \<Rightarrow> key" where
  "common_columns r = (Facility_Name r, NPDES_ID r, City r, State r, Reporting_Obligations r)"

definition project_common :: "frame \<Rightarrow> (nat \<times> key) list" where
  "project_common df = map (\<lambda>r. (idx r, common_columns r)) df"

text \<open>
  \<^verbatim>\<open>drop_duplicates(keep=False)\<close> drops every row whose values occur more than once; the
  index labels play no part, and two missing values count as equal.
\<close>

definition drop_duplicates_keep_False :: "(nat \<times> 'k) list \<Rightarrow> (nat \<times> 'k) list" where
  "drop_duplicates_keep_False df = filter (\<lambda>x. count_list (map snd df) (snd x) = 1) df"

definition compare_removal_list_indices :: "frame \<Rightarrow> frame \<Rightarrow> nat list" where
  "compare_removal_list_indices remove_original remove_update =
     map fst (drop_duplicates_keep_False
       (project_common remove_original @ project_common remove_update))"

text \<open>
  \<^verbatim>\<open>df.loc[labels, columns]\<close>: for each label in turn the rows of \<open>df\<close> with that label;
  a label that no row of \<open>df\<close> has raises \<^verbatim>\<open>KeyError\<close>. The columns selected are the
  common columns and \<^verbatim>\<open>'sic_permit'\<close>.
\<close>

type_synonym compare_row = "nat \<times> key \<times> sic_entry list"

definition select_columns :: "facility \<Rightarrow> compare_row" where
  "select_columns r = (idx r, common_columns r, sic_permit r)"

definition loc :: "frame \<Rightarrow> nat list \<Rightarrow> error + compare_row list" where
  "loc df labels =
     (if list_all (\<lambda>l. l \<in> set (map idx df)) labels
      then Inr (map select_columns (concat (map (\<lambda>l. filter (\<lambda>r. idx r = l) df) labels)))
      else Inl KeyError)"

definition compare_removal_list :: "frame \<Rightarrow> frame \<Rightarrow> error + compare_row list" where
  "compare_removal_list remove_original remove_update =
     loc remove_update (compare_removal_list_indices remove_original remove_update)"

text \<open>
  The specification's \<open>added\<close> component: the members of \<open>run_b\<close> whose key tuple occurs
  in no member of \<open>run_a\<close>.
\<close>

definition diff_added :: "frame \<Rightarrow> frame \<Rightarrow> frame" where
  "diff_added run_a run_b =
     filter (\<lambda>b. common_columns b \<notin> set (map common_columns run_a)) run_b"

section \<open>Lookup in the NAICS registry\<close>

text \<open>
  The rows of \<^verbatim>\<open>naics_npdes_biosolids\<close>, with the columns that \<^verbatim>\<open>check_naics_biosolid_codes\<close>
  reads (both present in every row) and the code itself.
\<close>

record naics_row =
  PGM_SYS_ID :: string
  NAICS_CODE :: int
  CODE_DESCRIPTION :: string

text \<open>
  \<^verbatim>\<open>str.contains(npdes_id)\<close> reads the permit number as a regular expression of Python's
  \<^verbatim>\<open>re\<close> and searches every identifier for a match. The model covers the patterns made
  of ordinary characters, which stand for themselves, and of the dot, which stands for
  any character but the newline. A pattern with another metacharacter is outside the
  model (\<open>None\<close>): \<^verbatim>\<open>re\<close> reads it as an operator, or rejects it with \<^verbatim>\<open>re.error\<close>.
\<close>

definition re_metacharacters :: string where
  "re_metacharacters = [CHR ''.'', CHR ''^'', CHR ''$'', CHR ''*'', CHR ''+'', CHR ''?'',
     CHR ''{'', CHR ''}'', CHR ''['', CHR '']'', CHR 0x5C, CHR ''|'', CHR ''('', CHR '')'']"

definition plain_pattern :: "string \<Rightarrow> bool" where
  "plain_pattern pat = list_all (\<lambda>c. c \<notin> set re_metacharacters) pat"

datatype re_item = Lit char | Dot

fun re_compile :: "string \<Rightarrow> re_item list option" where
  "re_compile [] = Some []"
| "re_compile (c # cs) =
     (if c = CHR ''.'' then map_option (Cons Dot) (re_compile cs)
      else if c \<in> set re_metacharacters then None
      else map_option (Cons (Lit c)) (re_compile cs))"

fun re_item_matches :: "re_item \<Rightarrow> char \<Rightarrow> bool" where
  "re_item_matches (Lit p) c = (p = c)"
| "re_item_matches Dot c = (c \<noteq> CHR 0x0A)"

fun re_match :: "re_item list \<Rightarrow> string \<Rightarrow> bool" where
  "re_match [] s = True"
| "re_match (p # ps) [] = False"
| "re_match (p # ps) (c # cs) = (re_item_matches p c \<and> re_match ps cs)"

fun re_search :: "re_item list \<Rightarrow> string \<Rightarrow> bool" where
  "re_search pat [] = (pat = [])"
| "re_search pat (c # cs) = (re_match pat (c # cs) \<or> re_search pat cs)"

definition check_naics_biosolid_codes :: "naics_row list \<Rightarrow> string \<Rightarrow> string list option" where
  "check_naics_biosolid_codes naics_npdes_biosolids npdes_id =
     (case re_compile npdes_id of
        None \<Rightarrow> None
      | Some pat \<Rightarrow>
          (let npdes_mask = map (\<lambda>row. re_search pat (PGM_SYS_ID row)) naics_npdes_biosolids;
               matched_npdes = boolean_mask naics_npdes_biosolids npdes_mask
           in Some (map CODE_DESCRIPTION matched_npdes)))"

text \<open>
  The claimed result: the entries of all rows whose identifier contains the queried one
  as a substring, concatenated in row order.
\<close>

definition lookup_spec :: "naics_row list \<Rightarrow> string \<Rightarrow> string list" where
  "lookup_spec registry identifier =
     concat (map (\<lambda>row. if sublist identifier (PGM_SYS_ID row) then [CODE_DESCRIPTION row] else [])
       registry)"

section \<open>Enrichment\<close>

text \<open>
  Modelled from the spec: \<^verbatim>\<open>utilities.check_all_sic_code\<close> is not among the sources. The
  Code Lookup Service of the specification matches the identifier as a substring of the
  registry rows' identifiers, concatenates the codes of all matching rows in row order,
  and answers with the no-match marker when no row matches.
\<close>

definition check_all_sic_code :: "(string \<times> int) list \<Rightarrow> string \<Rightarrow> sic_entry list" where
  "check_all_sic_code registry npdes_id =
     (let codes = map snd (filter (\<lambda>row. str_contains npdes_id (fst row)) registry)
      in if codes = [] then [SicStr ''NO_SIC_MATCH''] else map SicInt codes)"

text \<open>
  Modelled from the spec: the Code Classifier of the specification. The verdict is
  \<open>sewer_system\<close> when the Code Set contains at least one code of the sewer-related subset,
  and \<open>other_system\<close> otherwise. The subset is hard-coded in the missing
  \<^verbatim>\<open>utilities\<close> module and is a parameter here.
\<close>

fun is_sewer_code :: "int list \<Rightarrow> sic_entry \<Rightarrow> bool" where
  "is_sewer_code sewer_codes (SicInt n) = (n \<in> set sewer_codes)"
| "is_sewer_code sewer_codes (SicStr s) = False"

definition classify :: "int list \<Rightarrow> sic_entry list \<Rightarrow> verdict" where
  "classify sewer_codes codes =
     (if list_ex (is_sewer_code sewer_codes) codes then sewer_system else other_system)"

text \<open>
  Modelled from the spec: \<^verbatim>\<open>utilities.check_for_ww_permits\<close> is not among the sources. The
  notebook applies it to the permit number; by the specification it classifies the codes
  that the lookup finds for that number.
\<close>

definition check_for_ww_permits :: "int list \<Rightarrow> (string \<times> int) list \<Rightarrow> string \<Rightarrow> verdict" where
  "check_for_ww_permits sewer_codes registry npdes_id =
     classify sewer_codes (check_all_sic_code registry npdes_id)"

text \<open>
  The notebook's two column assignments:
  \<^verbatim>\<open>all_biosolids['sic_permit'] = all_biosolids['NPDES ID'].progress_apply(check_all_sic_code)\<close>
  and
  \<^verbatim>\<open>all_biosolids['check_sewer_permits'] = all_biosolids['NPDES ID'].progress_apply(check_for_ww_permits)\<close>.
\<close>

definition enrich :: "int list \<Rightarrow> (string \<times> int) list \<Rightarrow> frame \<Rightarrow> frame" where
  "enrich sewer_codes registry all_biosolids =
     map (\<lambda>r. r\<lparr>check_sewer_permits := check_for_ww_permits sewer_codes registry (NPDES_ID r)\<rparr>)
       (map (\<lambda>r. r\<lparr>sic_permit := check_all_sic_code registry (NPDES_ID r)\<rparr>) all_biosolids)"

section \<open>Example rows\<close>

text \<open>Rows after the notebook's outputs; what the outputs do not show is made up.\<close>

definition fac_austin :: facility where
  "fac_austin = \<lparr>idx = 14, Facility_Name = ''AUSTIN COUNTY WSC  PLANT 3'',
     NPDES_ID = ''TX0125709'', City = ''SEALY'', State = ''TX'',
     Reporting_Obligations = Some '''', sic_permit = [SicInt 4941, SicInt 4941],
     check_sewer_permits = other_system\<rparr>"

definition fac_noonday :: facility where
  "fac_noonday = \<lparr>idx = 4171, Facility_Name = ''NOONDAY WATER WELL 2 WWTF'',
     NPDES_ID = ''TX0118362'', City = ''TYLER'', State = ''TX'',
     Reporting_Obligations = Some ''A POTW that serves 10,000 people or more'',
     sic_permit = [SicInt 4941], check_sewer_permits = other_system\<rparr>"

definition fac_bayou :: facility where
  "fac_bayou = \<lparr>idx = 938, Facility_Name = ''BAYOU CLUB WWTP'',
     NPDES_ID = ''TX0083933'', City = ''HOUSTON'', State = ''TX'',
     Reporting_Obligations = Some '''', sic_permit = [SicInt 8641],
     check_sewer_permits = other_system\<rparr>"

definition fac_sewer :: facility where
  "fac_sewer = \<lparr>idx = 1, Facility_Name = ''CITY WWTP'',
     NPDES_ID = ''TX0000001'', City = ''AUSTIN'', State = ''TX'',
     Reporting_Obligations = Some '''', sic_permit = [SicInt 4952, SicInt 4941],
     check_sewer_permits = sewer_system\<rparr>"

definition fac_no_match :: facility where
  "fac_no_match = \<lparr>idx = 2, Facility_Name = ''UNKNOWN PLANT'',
     NPDES_ID = ''TX0000002'', City = ''WACO'', State = ''TX'',
     Reporting_Obligations = Some '''', sic_permit = [SicStr ''NO_SIC_MATCH''],
     check_sewer_permits = other_system\<rparr>"

definition fac_potw :: facility where
  "fac_potw = \<lparr>idx = 3, Facility_Name = ''TOWN WWTP'',
     NPDES_ID = ''TX0000003'', City = ''TYLER'', State = ''TX'',
     Reporting_Obligations = Some ''A POTW that serves 10,000 people or more'',
     sic_permit = [SicInt 9511], check_sewer_permits = other_system\<rparr>"

definition fac_missing :: facility where
  "fac_missing = \<lparr>idx = 4, Facility_Name = ''WATER PLANT'',
     NPDES_ID = ''TX0000004'', City = ''TYLER'', State = ''TX'',
     Reporting_Obligations = None, sic_permit = [SicInt 4941],
     check_sewer_permits = other_system\<rparr>"

definition fac_repair :: facility where
  "fac_repair = \<lparr>idx = 5, Facility_Name = ''REPAIR SHOP WWTP'',
     NPDES_ID = ''TX0000005'', City = ''WACO'', State = ''TX'',
     Reporting_Obligations = Some '''', sic_permit = [SicInt 7699],
     check_sewer_permits = other_system\<rparr>"

text \<open>Rows of a NAICS registry with a repeated entry, and rows of a SIC registry.\<close>

definition naics_example :: "naics_row list" where
  "naics_example =
     [\<lparr>PGM_SYS_ID = ''UTL020061'', NAICS_CODE = 325998,
        CODE_DESCRIPTION = ''ALL OTHER MISCELLANEOUS CHEMICAL PRODUCT AND PREPARATION MANUFACTURING.''\<rparr>,
      \<lparr>PGM_SYS_ID = ''UTL025763'', NAICS_CODE = 721199,
        CODE_DESCRIPTION = ''ALL OTHER TRAVELER ACCOMMODATION.''\<rparr>,
      \<lparr>PGM_SYS_ID = ''AK0021474'', NAICS_CODE = 221320,
        CODE_DESCRIPTION = ''SEWAGE TREATMENT FACILITIES.''\<rparr>,
      \<lparr>PGM_SYS_ID = ''UTL025763'', NAICS_CODE = 721199,
        CODE_DESCRIPTION = ''ALL OTHER TRAVELER ACCOMMODATION.''\<rparr>]"

definition sic_example :: "(string \<times> int) list" where
  "sic_example = [(''TX0125709'', 4941), (''TX0000001'', 4952), (''TX0125709'', 4941),
     (''TX0000001'', 4941)]"

section \<open>Basic facts\<close>

lemma boolean_mask_map: "boolean_mask df (map p df) = filter p df"
  unfolding boolean_mask_def by (induction df) simp_all

lemma biosolids_not_sewer_eq:
  "biosolids_not_sewer df = filter (\<lambda>r. check_sewer_permits r = other_system) df"
  unfolding biosolids_not_sewer_def by (rule boolean_mask_map)

lemma has_match_eq:
  "has_match df = filter (\<lambda>r. SicStr ''NO_SIC_MATCH'' \<notin> set (sic_permit r)) df"
  unfolding has_match_def by (rule boolean_mask_map)

lemma biosolids_not_potw_includes_dw_eq:
  "biosolids_not_potw_includes_dw df =
     filter (\<lambda>r. \<not> (potw_check r = Some True \<and> \<not> dw_sic_check r)) df"
  unfolding biosolids_not_potw_includes_dw_def potw_not_dw_mask_def
  by (simp add: boolean_mask_map)

lemma those_eq_Some: "those xs = Some ys \<Longrightarrow> xs = map Some ys"
  by (induction xs arbitrary: ys) (auto split: option.splits)

lemma those_eq_None: "those xs = None \<longleftrightarrow> None \<in> set xs"
  by (induction xs) (auto split: option.splits)

lemma biosolids_not_sewer_not_potw_Inr:
  assumes "biosolids_not_sewer_not_potw df = Inr out"
  shows "out = filter (\<lambda>r. potw_check r = Some False) df"
    and "\<forall>r\<in>set df. potw_check r \<noteq> None"
proof -
  from assms obtain bs where bs: "those (map potw_check df) = Some bs"
    and out: "out = boolean_mask df (map Not bs)"
    unfolding biosolids_not_sewer_not_potw_def potw_mask_def invert_def
    by (auto split: option.splits)
  from bs have eq: "map potw_check df = map Some bs" by (rule those_eq_Some)
  then have "bs = map (\<lambda>r. the (potw_check r)) df"
    by (induction df arbitrary: bs) auto
  then have "map Not bs = map (\<lambda>r. \<not> the (potw_check r)) df" by simp
  with out have "out = filter (\<lambda>r. \<not> the (potw_check r)) df"
    by (simp only: boolean_mask_map)
  moreover from eq show all: "\<forall>r\<in>set df. potw_check r \<noteq> None"
    by (induction df arbitrary: bs) auto
  ultimately show "out = filter (\<lambda>r. potw_check r = Some False) df"
    by (auto intro!: filter_cong)
qed

lemma biosolids_not_sewer_not_potw_total:
  assumes "\<forall>r\<in>set df. potw_check r \<noteq> None"
  shows "biosolids_not_sewer_not_potw df = Inr (filter (\<lambda>r. potw_check r = Some False) df)"
proof -
  from assms have "None \<notin> set (map potw_check df)" by auto
  then have "those (map potw_check df) \<noteq> None"
    by (simp only: those_eq_None not_False_eq_True)
  then obtain bs where "those (map potw_check df) = Some bs" by blast
  then have "\<exists>out. biosolids_not_sewer_not_potw df = Inr out"
    unfolding biosolids_not_sewer_not_potw_def potw_mask_def invert_def by simp
  then show ?thesis using biosolids_not_sewer_not_potw_Inr(1) by blast
qed

lemma starts_with_prefix: "starts_with pat s = prefix pat s"
  by (induction pat s rule: starts_with.induct) simp_all

lemma str_contains_sublist: "str_contains pat s = sublist pat s"
  by (induction s) (simp_all add: starts_with_prefix sublist_Cons_right)

lemma potw_check_Some_True: "potw_check r = Some True \<longleftrightarrow> obligation_contains_POTW r"
  unfolding potw_check_def Series_str_contains_def obligation_contains_POTW_def
  by (cases "Reporting_Obligations r") (simp_all add: str_contains_sublist)

lemma potw_check_None: "potw_check r = None \<longleftrightarrow> Reporting_Obligations r = None"
  unfolding potw_check_def Series_str_contains_def by simp

lemma potw_check_Some_False:
  "potw_check r = Some False \<longleftrightarrow>
     Reporting_Obligations r \<noteq> None \<and> \<not> obligation_contains_POTW r"
  unfolding potw_check_def Series_str_contains_def obligation_contains_POTW_def
  by (cases "Reporting_Obligations r") (simp_all add: str_contains_sublist)

lemma dw_sic_check_4941: "dw_sic_check r = code_set_contains_4941 r"
  unfolding dw_sic_check_def dw_code_def code_set_contains_4941_def ..

lemma not_potw_Revised_eq:
  "not_potw Revised df = Inr (filter (\<lambda>r. \<not> rule2_retains Revised r) df)"
  by (simp add: biosolids_not_potw_includes_dw_eq potw_check_Some_True dw_sic_check_4941)

lemma not_potw_Original_eq:
  assumes "texts_present df"
  shows "not_potw Original df = Inr (filter (\<lambda>r. \<not> rule2_retains Original r) df)"
proof -
  from assms have present: "\<forall>r\<in>set df. potw_check r \<noteq> None"
    by (simp add: texts_present_def list_all_iff potw_check_None)
  then have "filter (\<lambda>r. potw_check r = Some False) df =
      filter (\<lambda>r. \<not> rule2_retains Original r) df"
    by (intro filter_cong) (auto simp flip: potw_check_Some_True)
  with biosolids_not_sewer_not_potw_total [OF present] show ?thesis by simp
qed

lemmas pipeline_defs =
  biosolids_to_remove_def biosolids_not_sewer_not_potw_has_match_def biosolids_not_sewer_def
  biosolids_not_sewer_not_potw_def potw_mask_def invert_def boolean_mask_def potw_check_def
  Series_str_contains_def biosolids_not_potw_includes_dw_def potw_not_dw_mask_def
  dw_sic_check_def dw_code_def has_match_def str_accessor_def

lemmas example_rows =
  fac_austin_def fac_noonday_def fac_bayou_def fac_sewer_def fac_no_match_def
  fac_potw_def fac_missing_def fac_repair_def

lemma has_match_split:
  "set (has_match_sic_removal df) \<union> set (has_match_sic_check df) = set df"
  unfolding has_match_sic_removal_def has_match_sic_check_def
  by (auto simp: boolean_mask_map)

lemma str_accessor_eq:
  "str_accessor (map Reporting_Obligations all_biosolids) =
     (if text_column_object all_biosolids then Inr (map Reporting_Obligations all_biosolids)
      else Inl AttributeError)"
  unfolding str_accessor_def text_column_object_def by (simp add: list_ex_iff)

lemma biosolids_to_remove_eq:
  assumes "returns_list cfg all_biosolids"
  shows "biosolids_to_remove cfg all_biosolids =
     Inr (filter (\<lambda>r. check_sewer_permits r = other_system \<and> \<not> rule2_retains cfg r
            \<and> SicStr ''NO_SIC_MATCH'' \<notin> set (sic_permit r)) all_biosolids)"
proof -
  from assms have dtype: "text_column_object all_biosolids" by (cases cfg) simp_all
  have "not_potw cfg (biosolids_not_sewer all_biosolids) =
      Inr (filter (\<lambda>r. \<not> rule2_retains cfg r) (biosolids_not_sewer all_biosolids))"
  proof (cases cfg)
    case Original
    with assms not_potw_Original_eq show ?thesis by simp
  next
    case Revised
    with not_potw_Revised_eq show ?thesis by simp
  qed
  with dtype show ?thesis
    unfolding biosolids_to_remove_def biosolids_not_sewer_not_potw_has_match_def
    by (simp add: str_accessor_eq has_match_eq biosolids_not_sewer_eq conj_commute
        conj_left_commute)
qed

lemma biosolids_to_remove_Inr:
  assumes "biosolids_to_remove cfg all_biosolids = Inr out"
  shows "returns_list cfg all_biosolids"
proof -
  from assms have dtype: "text_column_object all_biosolids"
    unfolding biosolids_to_remove_def biosolids_not_sewer_not_potw_has_match_def
    by (simp add: str_accessor_eq split: if_splits)
  show ?thesis
  proof (cases cfg)
    case Original
    with assms dtype obtain df where
      "biosolids_not_sewer_not_potw (biosolids_not_sewer all_biosolids) = Inr df"
      unfolding biosolids_to_remove_def biosolids_not_sewer_not_potw_has_match_def
      by (auto simp: str_accessor_eq split: sum.splits)
    from biosolids_not_sewer_not_potw_Inr(2) [OF this]
    have "texts_present (biosolids_not_sewer all_biosolids)"
      by (simp add: texts_present_def list_all_iff potw_check_None)
    with Original dtype show ?thesis by simp
  next
    case Revised
    with dtype show ?thesis by simp
  qed
qed

section \<open>Rule 1 has priority\<close>

text \<open>
  C4. A row whose verdict is \<open>sewer_system\<close> is in no removal list that the pipeline
  returns, in either pass, whatever its codes are.
\<close>

theorem sewer_system_never_removed:
  "check_sewer_permits r = sewer_system \<Longrightarrow> biosolids_to_remove cfg all_biosolids = Inr out
     \<Longrightarrow> r \<notin> set out"
proof -
  assume v: "check_sewer_permits r = sewer_system"
    and run: "biosolids_to_remove cfg all_biosolids = Inr out"
  from run have "returns_list cfg all_biosolids" by (rule biosolids_to_remove_Inr)
  from biosolids_to_remove_eq [OF this] run v show ?thesis by auto
qed

theorem sewer_system_never_removed_witness:
  "check_sewer_permits fac_sewer = sewer_system
   \<and> biosolids_to_remove Original [fac_sewer, fac_austin] = Inr [fac_austin]
   \<and> fac_sewer \<notin> set [fac_austin]"
  using sewer_system_never_removed [of fac_sewer Original "[fac_sewer, fac_austin]" "[fac_austin]"]
  by (simp add: pipeline_defs example_rows)

section \<open>The no-match default\<close>

text \<open>
  C5. A row whose Code Set holds the marker \<^verbatim>\<open>'NO_SIC_MATCH'\<close> is in no removal list that
  the pipeline returns, in either pass, whatever its other fields are.
\<close>

theorem no_match_never_removed:
  "SicStr ''NO_SIC_MATCH'' \<in> set (sic_permit r) \<Longrightarrow> biosolids_to_remove cfg all_biosolids = Inr out
     \<Longrightarrow> r \<notin> set out"
  unfolding biosolids_to_remove_def biosolids_not_sewer_not_potw_has_match_def
  by (auto simp: has_match_eq split: sum.splits)

theorem no_match_never_removed_witness:
  "SicStr ''NO_SIC_MATCH'' \<in> set (sic_permit fac_no_match)
   \<and> biosolids_to_remove Revised [fac_no_match, fac_austin] = Inr [fac_austin]
   \<and> fac_no_match \<notin> set [fac_austin]"
  using no_match_never_removed [of fac_no_match Revised "[fac_no_match, fac_austin]" "[fac_austin]"]
  by (simp add: pipeline_defs example_rows)

section \<open>The POTW rule and its override\<close>

text \<open>
  C1. In the second pass a row whose text contains POTW and whose Code Set contains 4941
  passes rule 2 and goes on to the later rules, and a row whose text contains POTW and
  whose Code Set does not contain 4941 is held back by rule 2. In the first pass every
  row whose text contains POTW is held back, with or without 4941; the first pass returns
  its rows when every text is present.
\<close>

theorem potw_override:
  "(\<forall>r\<in>set df. obligation_contains_POTW r \<and> code_set_contains_4941 r
        \<longrightarrow> r \<in> set (biosolids_not_potw_includes_dw df))
   \<and> (\<forall>r. obligation_contains_POTW r \<and> \<not> code_set_contains_4941 r
        \<longrightarrow> r \<notin> set (biosolids_not_potw_includes_dw df))
   \<and> (\<forall>out r. biosolids_not_sewer_not_potw df = Inr out \<and> obligation_contains_POTW r
        \<longrightarrow> r \<notin> set out)
   \<and> (texts_present df \<longrightarrow> (\<exists>out. biosolids_not_sewer_not_potw df = Inr out))"
proof (intro conjI impI allI)
  show "\<forall>r\<in>set df. obligation_contains_POTW r \<and> code_set_contains_4941 r
        \<longrightarrow> r \<in> set (biosolids_not_potw_includes_dw df)"
    by (simp add: biosolids_not_potw_includes_dw_eq dw_sic_check_4941)
  show "obligation_contains_POTW r \<and> \<not> code_set_contains_4941 r
        \<Longrightarrow> r \<notin> set (biosolids_not_potw_includes_dw df)" for r
    by (simp add: biosolids_not_potw_includes_dw_eq dw_sic_check_4941 potw_check_Some_True)
  show "r \<notin> set out"
    if "biosolids_not_sewer_not_potw df = Inr out \<and> obligation_contains_POTW r" for out r
  proof -
    from that have "out = filter (\<lambda>r. potw_check r = Some False) df"
      by (intro biosolids_not_sewer_not_potw_Inr(1)) simp
    moreover from that have "potw_check r = Some True" by (simp add: potw_check_Some_True)
    ultimately show ?thesis by simp
  qed
  assume "texts_present df"
  from not_potw_Original_eq [OF this]
  show "\<exists>out. biosolids_not_sewer_not_potw df = Inr out" by simp
qed

theorem potw_override_witness:
  "fac_noonday \<in> set [fac_austin, fac_noonday, fac_potw]
   \<and> obligation_contains_POTW fac_noonday \<and> code_set_contains_4941 fac_noonday
   \<and> fac_noonday \<in> set (biosolids_not_potw_includes_dw [fac_austin, fac_noonday, fac_potw])
   \<and> obligation_contains_POTW fac_potw \<and> \<not> code_set_contains_4941 fac_potw
   \<and> fac_potw \<notin> set (biosolids_not_potw_includes_dw [fac_austin, fac_noonday, fac_potw])
   \<and> texts_present [fac_austin, fac_noonday, fac_potw]
   \<and> biosolids_not_sewer_not_potw [fac_austin, fac_noonday, fac_potw] = Inr [fac_austin]
   \<and> fac_noonday \<notin> set [fac_austin]"
  using potw_override [of "[fac_austin, fac_noonday, fac_potw]"]
  by (simp add: pipeline_defs example_rows obligation_contains_POTW_def
      code_set_contains_4941_def texts_present_def sublist_Cons_right)

section \<open>Rows that fail rules 1 to 3\<close>

text \<open>
  C10. The first row below has verdict \<open>other_system\<close>, is not held back by rule 2 and
  has no no-match marker, so it fails rules 1 to 3; yet the first pass returns no removal
  list on this roster, because the second row has no text: it stops with the
  \<^verbatim>\<open>TypeError\<close> of C9. The second pass returns the list with both rows.
\<close>

theorem fails_rules_1_to_3_first_pass_fails:
  "fac_austin \<in> set [fac_austin, fac_missing]
   \<and> check_sewer_permits fac_austin = other_system
   \<and> \<not> rule2_retains Original fac_austin
   \<and> SicStr ''NO_SIC_MATCH'' \<notin> set (sic_permit fac_austin)
   \<and> biosolids_to_remove Original [fac_austin, fac_missing] = Inl TypeError
   \<and> biosolids_to_remove Revised [fac_austin, fac_missing] = Inr [fac_austin, fac_missing]"
  by (simp add: pipeline_defs example_rows obligation_contains_POTW_def)

text \<open>
  A roster whose only row has no text stops both passes at the accessor. On the rosters
  on which a pass returns a list, the list holds exactly the rows that fail rules 1 to 3,
  and the rule 4 rows and the rule 5 rows together make up the list.
\<close>

lemma roster_without_text_fails:
  "biosolids_to_remove Original [fac_missing] = Inl AttributeError
   \<and> biosolids_to_remove Revised [fac_missing] = Inl AttributeError"
  by (simp add: pipeline_defs example_rows)

lemma returned_list_rows:
  assumes "biosolids_to_remove cfg all_biosolids = Inr out"
  shows "set out = {r \<in> set all_biosolids. check_sewer_permits r = other_system
            \<and> \<not> rule2_retains cfg r \<and> SicStr ''NO_SIC_MATCH'' \<notin> set (sic_permit r)}"
    and "set (has_match_sic_removal out) \<union> set (has_match_sic_check out) = set out"
proof -
  from assms have "returns_list cfg all_biosolids" by (rule biosolids_to_remove_Inr)
  from biosolids_to_remove_eq [OF this] assms
  show "set out = {r \<in> set all_biosolids. check_sewer_permits r = other_system
            \<and> \<not> rule2_retains cfg r \<and> SicStr ''NO_SIC_MATCH'' \<notin> set (sic_permit r)}"
    by auto
  show "set (has_match_sic_removal out) \<union> set (has_match_sic_check out) = set out"
    by (rule has_match_split)
qed

section \<open>The review bucket\<close>

text \<open>
  C2 as claimed fails: a row that reaches rule 5 and whose permit number is not in the
  manual review list is in the removal list of both passes.
\<close>

theorem review_bucket_default_counterexample:
  "map_of manual_review (NPDES_ID fac_repair) = None
   \<and> check_sewer_permits fac_repair = other_system
   \<and> \<not> rule2_retains Original fac_repair \<and> \<not> rule2_retains Revised fac_repair
   \<and> SicStr ''NO_SIC_MATCH'' \<notin> set (sic_permit fac_repair)
   \<and> \<not> list_ex in_sic_remove (sic_permit fac_repair)
   \<and> has_match_sic_check [fac_repair] = [fac_repair]
   \<and> biosolids_to_remove Original [fac_repair] = Inr [fac_repair]
   \<and> biosolids_to_remove Revised [fac_repair] = Inr [fac_repair]"
  by (simp add: pipeline_defs example_rows obligation_contains_POTW_def manual_review_def
      has_match_sic_check_def sic_remove_def)

text \<open>
  C2 as amended. Every row that reaches rule 5 (verdict \<open>other_system\<close>, not held back by
  rule 2, no no-match marker, no code of the removal taxonomy) is in every removal list
  that a pass returns, among its rule 5 rows, whether its permit number is in the manual
  review list or not: the pipeline takes no such list. A pass returns a removal list at
  least when the text column of the roster has dtype object and, in the first pass,
  every row with verdict \<open>other_system\<close> has its text.
\<close>

theorem review_bucket_removed:
  assumes "r \<in> set all_biosolids"
    and "check_sewer_permits r = other_system"
    and "\<not> rule2_retains cfg r"
    and "SicStr ''NO_SIC_MATCH'' \<notin> set (sic_permit r)"
    and "\<not> list_ex in_sic_remove (sic_permit r)"
  shows "(\<forall>out. biosolids_to_remove cfg all_biosolids = Inr out
            \<longrightarrow> r \<in> set (has_match_sic_check out) \<and> r \<in> set out)
     \<and> (returns_list cfg all_biosolids
            \<longrightarrow> (\<exists>out. biosolids_to_remove cfg all_biosolids = Inr out))"
proof (intro conjI allI impI)
  fix out
  assume run: "biosolids_to_remove cfg all_biosolids = Inr out"
  then have "returns_list cfg all_biosolids" by (rule biosolids_to_remove_Inr)
  from biosolids_to_remove_eq [OF this] run assms(1-4) show in_out: "r \<in> set out"
    by auto
  with assms(5) show "r \<in> set (has_match_sic_check out)"
    by (simp add: has_match_sic_check_def boolean_mask_map)
next
  assume "returns_list cfg all_biosolids"
  from biosolids_to_remove_eq [OF this]
  show "\<exists>out. biosolids_to_remove cfg all_biosolids = Inr out" by simp
qed

theorem review_bucket_removed_witness:
  "fac_bayou \<in> set [fac_sewer, fac_bayou, fac_austin, fac_potw]
   \<and> check_sewer_permits fac_bayou = other_system
   \<and> \<not> rule2_retains Original fac_bayou
   \<and> SicStr ''NO_SIC_MATCH'' \<notin> set (sic_permit fac_bayou)
   \<and> \<not> list_ex in_sic_remove (sic_permit fac_bayou)
   \<and> map_of manual_review (NPDES_ID fac_bayou) = Some Remove
   \<and> returns_list Original [fac_sewer, fac_bayou, fac_austin, fac_potw]
   \<and> biosolids_to_remove Original [fac_sewer, fac_bayou, fac_austin, fac_potw]
        = Inr [fac_bayou, fac_austin]
   \<and> has_match_sic_check [fac_bayou, fac_austin] = [fac_bayou]"
  using review_bucket_removed [of fac_bayou "[fac_sewer, fac_bayou, fac_austin, fac_potw]" Original]
  by (simp add: pipeline_defs example_rows obligation_contains_POTW_def manual_review_def
      code_set_contains_4941_def has_match_sic_check_def sic_remove_def sublist_Cons_right
      text_column_object_def texts_present_def)

section \<open>Missing reporting-obligation text\<close>

text \<open>
  C9. A row without text stops the first pass with a \<^verbatim>\<open>TypeError\<close>, although the same row
  with an empty text passes rule 2 and is in the removal list; the second pass treats the
  missing text as a text without POTW.
\<close>

theorem missing_text_first_pass_fails:
  "biosolids_to_remove Original [fac_austin, fac_missing] = Inl TypeError
   \<and> biosolids_to_remove Original [fac_austin, fac_missing\<lparr>Reporting_Obligations := Some []\<rparr>]
       = Inr [fac_austin, fac_missing\<lparr>Reporting_Obligations := Some []\<rparr>]
   \<and> biosolids_to_remove Revised [fac_austin, fac_missing] = Inr [fac_austin, fac_missing]"
  by (simp add: pipeline_defs example_rows)

section \<open>The verdict of an enriched row\<close>

lemma is_sewer_code_iff:
  "list_ex (is_sewer_code sewer_codes) codes \<longleftrightarrow> (\<exists>n\<in>set sewer_codes. SicInt n \<in> set codes)"
proof -
  have "is_sewer_code sewer_codes c \<longleftrightarrow> (\<exists>n\<in>set sewer_codes. c = SicInt n)" for c
    by (cases c) auto
  then show ?thesis by (auto simp: list_ex_iff)
qed

text \<open>
  C3. In every row of the enriched roster the verdict is the classifier's answer on the
  row's Code Set: \<open>sewer_system\<close> when the Code Set contains a code of the sewer-related
  subset, \<open>other_system\<close> otherwise.
\<close>

theorem verdict_classifies_code_set:
  "\<forall>r\<in>set (enrich sewer_codes registry all_biosolids).
     check_sewer_permits r = classify sewer_codes (sic_permit r)
     \<and> (check_sewer_permits r = sewer_system
          \<longleftrightarrow> (\<exists>n\<in>set sewer_codes. SicInt n \<in> set (sic_permit r)))
     \<and> (check_sewer_permits r = other_system
          \<longleftrightarrow> \<not> (\<exists>n\<in>set sewer_codes. SicInt n \<in> set (sic_permit r)))"
  unfolding enrich_def check_for_ww_permits_def
  by (auto simp: classify_def is_sewer_code_iff)

theorem verdict_classifies_code_set_witness:
  "enrich [4952] sic_example [fac_austin, fac_sewer, fac_bayou]
     = [fac_austin, fac_sewer, fac_bayou\<lparr>sic_permit := [SicStr ''NO_SIC_MATCH'']\<rparr>]
   \<and> check_sewer_permits fac_austin = classify [4952] (sic_permit fac_austin)
   \<and> check_sewer_permits fac_austin = other_system
   \<and> check_sewer_permits fac_sewer = classify [4952] (sic_permit fac_sewer)
   \<and> check_sewer_permits fac_sewer = sewer_system
   \<and> SicInt 4952 \<in> set (sic_permit fac_sewer)"
  using verdict_classifies_code_set [of "[4952]" sic_example "[fac_austin, fac_sewer, fac_bayou]"]
  by (simp add: enrich_def check_for_ww_permits_def check_all_sic_code_def classify_def
      sic_example_def example_rows)

section \<open>What the comparison reports\<close>

lemma count_list_distinct: "distinct xs \<Longrightarrow> x \<in> set xs \<Longrightarrow> count_list xs x = 1"
  by (induction xs) (auto simp: count_list_0_iff)

lemma filter_unique:
  "distinct (map f xs) \<Longrightarrow> x \<in> set xs \<Longrightarrow> filter (\<lambda>r. f r = f x) xs = [x]"
proof (induction xs)
  case Nil
  then show ?case by simp
next
  case (Cons a xs)
  show ?case
  proof (cases "a = x")
    case True
    with Cons.prems have "f x \<notin> f ` set xs" by simp
    then have "\<forall>r\<in>set xs. f r \<noteq> f x" by (metis imageI)
    then have "filter (\<lambda>r. f r = f x) xs = []" by (simp add: filter_empty_conv)
    with True show ?thesis by simp
  next
    case False
    with Cons.prems have "x \<in> set xs" and "f a \<noteq> f x" by auto
    with Cons show ?thesis by simp
  qed
qed

text \<open>\<^verbatim>\<open>.loc\<close> with the labels of rows of the frame itself, the labels being unique there.\<close>

lemma loc_own_rows:
  assumes "distinct (map idx df)" and "set rows \<subseteq> set df"
  shows "loc df (map idx rows) = Inr (map select_columns rows)"
proof -
  from assms(2) have present: "list_all (\<lambda>l. l \<in> set (map idx df)) (map idx rows)"
    by (auto simp: list_all_iff)
  from assms have "concat (map (\<lambda>l. filter (\<lambda>r. idx r = l) df) (map idx rows)) = rows"
  proof (induction rows)
    case Nil
    then show ?case by simp
  next
    case (Cons x rows)
    then have "filter (\<lambda>r. idx r = idx x) df = [x]"
      by (intro filter_unique) auto
    with Cons show ?case by simp
  qed
  with present show ?thesis unfolding loc_def by simp
qed

lemma drop_duplicates_keep_False_append:
  "drop_duplicates_keep_False (xs @ ys) =
     filter (\<lambda>x. count_list (map snd xs) (snd x) + count_list (map snd ys) (snd x) = 1) xs
     @ filter (\<lambda>x. count_list (map snd xs) (snd x) + count_list (map snd ys) (snd x) = 1) ys"
  unfolding drop_duplicates_keep_False_def by simp

text \<open>The labels depend on the index labels and the common columns of the two runs only.\<close>

lemma compare_removal_list_indices_cong:
  "project_common run_a = project_common run_a' \<Longrightarrow>
   project_common run_b = project_common run_b' \<Longrightarrow>
   compare_removal_list_indices run_a run_b = compare_removal_list_indices run_a' run_b'"
  unfolding compare_removal_list_indices_def by simp

lemma compare_removal_list_indices_eq:
  assumes "set (map common_columns run_a) \<subseteq> set (map common_columns run_b)"
    and "distinct (map common_columns run_b)"
  shows "compare_removal_list_indices run_a run_b = map idx (diff_added run_a run_b)"
proof -
  let ?ka = "map common_columns run_a" and ?kb = "map common_columns run_b"
  have ka: "map snd (project_common run_a) = ?ka"
    and kb: "map snd (project_common run_b) = ?kb"
    by (simp_all add: project_common_def comp_def)
  have a: "filter (\<lambda>x. count_list ?ka (snd x) + count_list ?kb (snd x) = 1)
      (project_common run_a) = []"
  proof -
    have "count_list ?ka (snd x) + count_list ?kb (snd x) \<noteq> 1"
      if "x \<in> set (project_common run_a)" for x
    proof -
      from that have in_a: "snd x \<in> set ?ka" by (auto simp: project_common_def)
      with assms(1) have "snd x \<in> set ?kb" by blast
      with in_a have "count_list ?ka (snd x) \<noteq> 0" "count_list ?kb (snd x) \<noteq> 0"
        by (simp_all add: count_list_0_iff)
      then show ?thesis by arith
    qed
    then show ?thesis by (simp add: filter_empty_conv)
  qed
  have b: "map fst (filter (\<lambda>x. count_list ?ka (snd x) + count_list ?kb (snd x) = 1)
      (project_common run_b)) = map idx (diff_added run_a run_b)"
  proof -
    have "(count_list ?ka (common_columns r) + count_list ?kb (common_columns r) = 1)
        = (common_columns r \<notin> set ?ka)" if "r \<in> set run_b" for r
    proof -
      from that have "common_columns r \<in> set ?kb" by simp
      with assms(2) have "count_list ?kb (common_columns r) = 1" by (rule count_list_distinct)
      then show ?thesis by (simp add: count_list_0_iff)
    qed
    then have "filter (\<lambda>r. count_list ?ka (common_columns r)
          + count_list ?kb (common_columns r) = 1) run_b = diff_added run_a run_b"
      unfolding diff_added_def by (intro filter_cong) auto
    then show ?thesis
      unfolding project_common_def by (simp add: filter_map comp_def)
  qed
  show ?thesis
    unfolding compare_removal_list_indices_def drop_duplicates_keep_False_append ka kb
    using a b by simp
qed

text \<open>
  C6 as claimed fails. With a row of the first run that the second run lacks, the lookup
  of its label in the second run raises \<^verbatim>\<open>KeyError\<close>, where the claim has an \<open>added\<close>
  component of one row. With two rows of the second run that agree on the common columns,
  both are dropped, where the claim has both in the \<open>added\<close> component.
\<close>

theorem compare_removal_list_counterexample:
  "compare_removal_list [fac_austin, fac_bayou] [fac_austin, fac_noonday] = Inl KeyError
   \<and> diff_added [fac_austin, fac_bayou] [fac_austin, fac_noonday] = [fac_noonday]
   \<and> compare_removal_list [] [fac_noonday, fac_noonday\<lparr>idx := 4172\<rparr>] = Inr []
   \<and> diff_added [] [fac_noonday, fac_noonday\<lparr>idx := 4172\<rparr>]
       = [fac_noonday, fac_noonday\<lparr>idx := 4172\<rparr>]"
  by (simp add: compare_removal_list_def compare_removal_list_indices_def loc_def
      drop_duplicates_keep_False_def project_common_def common_columns_def diff_added_def
      select_columns_def example_rows)

text \<open>
  C6 as amended. When every key tuple of the first run occurs in the second run, and the
  rows of the second run have pairwise distinct key tuples and pairwise distinct index
  labels, the comparison returns exactly the rows of the second run whose key tuple occurs
  in no row of the first run, in the order of the second run, with the common columns and
  the Code Set. Membership is decided by the key tuple alone.
\<close>

theorem compare_removal_list_added:
  assumes "set (map common_columns run_a) \<subseteq> set (map common_columns run_b)"
    and "distinct (map common_columns run_b)"
    and "distinct (map idx run_b)"
  shows "compare_removal_list run_a run_b = Inr (map select_columns (diff_added run_a run_b))"
proof -
  have "set (diff_added run_a run_b) \<subseteq> set run_b" unfolding diff_added_def by auto
  with assms(3) have "loc run_b (map idx (diff_added run_a run_b)) =
      Inr (map select_columns (diff_added run_a run_b))"
    by (rule loc_own_rows)
  with compare_removal_list_indices_eq [OF assms(1,2)] show ?thesis
    unfolding compare_removal_list_def by simp
qed

theorem compare_removal_list_added_witness:
  "set (map common_columns [fac_austin\<lparr>sic_permit := [], check_sewer_permits := sewer_system\<rparr>])
     \<subseteq> set (map common_columns [fac_austin, fac_noonday])
   \<and> distinct (map common_columns [fac_austin, fac_noonday])
   \<and> distinct (map idx [fac_austin, fac_noonday])
   \<and> compare_removal_list [fac_austin\<lparr>sic_permit := [], check_sewer_permits := sewer_system\<rparr>]
        [fac_austin, fac_noonday] = Inr [select_columns fac_noonday]"
  using compare_removal_list_added
    [of "[fac_austin\<lparr>sic_permit := [], check_sewer_permits := sewer_system\<rparr>]"
      "[fac_austin, fac_noonday]"]
  by (simp add: common_columns_def diff_added_def example_rows)

text \<open>
  C7 as claimed fails. The comparison of the first pass with the second reports the row
  that the second pass adds; with the runs exchanged it raises \<^verbatim>\<open>KeyError\<close> and reports
  no row as removed.
\<close>

theorem reconciliation_symmetry_counterexample:
  "compare_removal_list [fac_austin] [fac_austin, fac_noonday] = Inr [select_columns fac_noonday]
   \<and> compare_removal_list [fac_austin, fac_noonday] [fac_austin] = Inl KeyError"
  by (simp add: compare_removal_list_def compare_removal_list_indices_def loc_def
      drop_duplicates_keep_False_def project_common_def common_columns_def
      select_columns_def example_rows)

text \<open>
  C7 as amended. The comparison singles out the index labels of the rows whose key tuple
  occurs exactly once in the two runs taken together; these labels are the same, with the
  same multiplicities, whichever run comes first. The reported rows are always taken
  from the second run: the comparison returns, for each singled-out label in turn, the
  rows of the second run with that label, and raises \<^verbatim>\<open>KeyError\<close> when a singled-out
  label is the label of no row of the second run.
\<close>

theorem compare_removal_list_second_run:
  "compare_removal_list_indices run_a run_b =
      map idx (filter (\<lambda>r. count_list (map common_columns (run_a @ run_b)) (common_columns r) = 1)
        (run_a @ run_b))
   \<and> mset (compare_removal_list_indices run_a run_b)
       = mset (compare_removal_list_indices run_b run_a)
   \<and> compare_removal_list run_a run_b =
       (if set (compare_removal_list_indices run_a run_b) \<subseteq> set (map idx run_b)
        then Inr (map select_columns (concat (map (\<lambda>l. filter (\<lambda>r. idx r = l) run_b)
               (compare_removal_list_indices run_a run_b))))
        else Inl KeyError)
   \<and> (\<forall>rows. compare_removal_list run_a run_b = Inr rows
         \<longrightarrow> set rows \<subseteq> set (map select_columns run_b))"
proof (intro conjI allI impI)
  have keys: "map snd (project_common df) = map common_columns df" for df
    by (simp add: project_common_def comp_def)
  show "compare_removal_list_indices run_a run_b =
      map idx (filter (\<lambda>r. count_list (map common_columns (run_a @ run_b)) (common_columns r) = 1)
        (run_a @ run_b))"
    unfolding compare_removal_list_indices_def drop_duplicates_keep_False_def
    by (simp add: keys project_common_def filter_map comp_def)
  show "mset (compare_removal_list_indices run_a run_b)
       = mset (compare_removal_list_indices run_b run_a)"
    unfolding compare_removal_list_indices_def drop_duplicates_keep_False_append
    by (simp add: add.commute)
  show run: "compare_removal_list run_a run_b =
       (if set (compare_removal_list_indices run_a run_b) \<subseteq> set (map idx run_b)
        then Inr (map select_columns (concat (map (\<lambda>l. filter (\<lambda>r. idx r = l) run_b)
               (compare_removal_list_indices run_a run_b))))
        else Inl KeyError)"
    unfolding compare_removal_list_def loc_def by (simp add: list_all_iff subset_iff)
  fix rows
  assume "compare_removal_list run_a run_b = Inr rows"
  with run have "rows = map select_columns (concat (map (\<lambda>l. filter (\<lambda>r. idx r = l) run_b)
               (compare_removal_list_indices run_a run_b)))"
    by (simp split: if_splits)
  then show "set rows \<subseteq> set (map select_columns run_b)" by auto
qed

theorem compare_removal_list_second_run_witness:
  "compare_removal_list_indices [fac_austin] [fac_austin, fac_noonday] = [4171]
   \<and> compare_removal_list_indices [fac_austin, fac_noonday] [fac_austin] = [4171]
   \<and> compare_removal_list [fac_austin] [fac_austin, fac_noonday] = Inr [select_columns fac_noonday]
   \<and> set [select_columns fac_noonday] \<subseteq> set (map select_columns [fac_austin, fac_noonday])"
  using compare_removal_list_second_run [of "[fac_austin]" "[fac_austin, fac_noonday]"]
  by (simp add: compare_removal_list_def compare_removal_list_indices_def loc_def
      drop_duplicates_keep_False_def project_common_def common_columns_def
      select_columns_def example_rows)

section \<open>What the lookup returns\<close>

lemma map_filter_concat:
  "map f (filter P xs) = concat (map (\<lambda>x. if P x then [f x] else []) xs)"
  by (induction xs) simp_all

lemma re_compile_plain: "plain_pattern pat \<Longrightarrow> re_compile pat = Some (map Lit pat)"
proof (induction pat)
  case Nil
  then show ?case by simp
next
  case (Cons c cs)
  then have "c \<notin> set re_metacharacters" and "plain_pattern cs"
    by (simp_all add: plain_pattern_def)
  moreover from this(1) have "c \<noteq> CHR ''.''" by (auto simp: re_metacharacters_def)
  ultimately show ?case using Cons.IH by simp
qed

lemma re_match_Lit: "re_match (map Lit pat) s = prefix pat s"
  by (induction pat s rule: starts_with.induct) simp_all

lemma re_search_Lit: "re_search (map Lit pat) s = sublist pat s"
  by (induction s) (simp_all add: re_match_Lit sublist_Cons_right)

text \<open>
  C8 as claimed fails. For the identifier \<^verbatim>\<open>UTL02.\<close> the dot matches any character, so the
  lookup returns the entries of three rows, none of which contains the identifier as a
  substring.
\<close>

theorem check_naics_biosolid_codes_counterexample:
  "check_naics_biosolid_codes naics_example ''UTL02.''
     = Some [''ALL OTHER MISCELLANEOUS CHEMICAL PRODUCT AND PREPARATION MANUFACTURING.'',
         ''ALL OTHER TRAVELER ACCOMMODATION.'', ''ALL OTHER TRAVELER ACCOMMODATION.'']
   \<and> lookup_spec naics_example ''UTL02.'' = []"
  by (simp add: check_naics_biosolid_codes_def lookup_spec_def naics_example_def
      boolean_mask_def re_metacharacters_def sublist_Cons_right)

text \<open>
  C8 as amended. For an identifier without a metacharacter of regular expressions, as
  every well-formed identifier is, \<^verbatim>\<open>check_naics_biosolid_codes\<close> returns the entries of
  all registry rows whose identifier contains the queried one as a substring, in row
  order, one entry per matching row, repeated entries included.
\<close>

theorem check_naics_biosolid_codes_lookup:
  "plain_pattern npdes_id \<Longrightarrow>
     check_naics_biosolid_codes registry npdes_id = Some (lookup_spec registry npdes_id)"
  unfolding check_naics_biosolid_codes_def lookup_spec_def
  by (simp add: re_compile_plain boolean_mask_map re_search_Lit map_filter_concat)

theorem check_naics_biosolid_codes_lookup_witness:
  "plain_pattern ''UTL025''
   \<and> check_naics_biosolid_codes naics_example ''UTL025''
     = Some [''ALL OTHER TRAVELER ACCOMMODATION.'', ''ALL OTHER TRAVELER ACCOMMODATION.'']
   \<and> lookup_spec naics_example ''UTL025''
     = [''ALL OTHER TRAVELER ACCOMMODATION.'', ''ALL OTHER TRAVELER ACCOMMODATION.'']"
  using check_naics_biosolid_codes_lookup [of "''UTL025''" naics_example]
  by (simp add: plain_pattern_def re_metacharacters_def check_naics_biosolid_codes_def
      naics_example_def boolean_mask_def)

end
